theory Spec2Isabelle
  imports Complex_Main "HOL-Library.Sublist"
begin

section \<open>Strings of the platform\<close>

text \<open>
  Strings are lists of 8-bit characters, so the development covers ASCII text: the white
  space of \<^verbatim>\<open>\s\<close>, \<^verbatim>\<open>trim\<close> and \<^verbatim>\<open>parseFloat\<close> is
  tab, line feed, vertical tab, form feed, carriage return and space, and the case
  conversions act on the letters A to Z and a to z only.
\<close>

definition is_space :: "char \<Rightarrow> bool" where
  "is_space c = (c \<in> set [CHR 0x09, CHR 0x0A, CHR 0x0B, CHR 0x0C, CHR 0x0D, CHR '' ''])"

definition is_digit :: "char \<Rightarrow> bool" where
  "is_digit c = (c \<in> set ''0123456789'')"

definition is_alpha :: "char \<Rightarrow> bool" where
  "is_alpha c = (c \<in> set ''ABCDEFGHIJKLMNOPQRSTUVWXYZabcdefghijklmnopqrstuvwxyz'')"

definition toLowerCase_char :: "char \<Rightarrow> char" where
  "toLowerCase_char c =
     (case map_of (zip ''ABCDEFGHIJKLMNOPQRSTUVWXYZ'' ''abcdefghijklmnopqrstuvwxyz'') c of
        Some l \<Rightarrow> l
      | None \<Rightarrow> c)"

definition toUpperCase_char :: "char \<Rightarrow> char" where
  "toUpperCase_char c =
     (case map_of (zip ''abcdefghijklmnopqrstuvwxyz'' ''ABCDEFGHIJKLMNOPQRSTUVWXYZ'') c of
        Some u \<Rightarrow> u
      | None \<Rightarrow> c)"

definition toLowerCase :: "string \<Rightarrow> string" where
  "toLowerCase s = map toLowerCase_char s"

definition toUpperCase :: "string \<Rightarrow> string" where
  "toUpperCase s = map toUpperCase_char s"

text \<open>\<^verbatim>\<open>s.includes(t)\<close>: \<open>t\<close> occurs in \<open>s\<close> as a contiguous block.\<close>

fun str_includes :: "string \<Rightarrow> string \<Rightarrow> bool" where
  "str_includes [] t = (t = [])"
| "str_includes (c # cs) t = (prefix t (c # cs) \<or> str_includes cs t)"

definition trim :: "string \<Rightarrow> string" where
  "trim s = rev (dropWhile is_space (rev (dropWhile is_space s)))"

text \<open>\<^verbatim>\<open>s.split(sep)\<close> for a separator of one character.\<close>

fun split_on :: "char \<Rightarrow> string \<Rightarrow> string list" where
  "split_on sep [] = [[]]"
| "split_on sep (c # cs) =
     (if c = sep then [] # split_on sep cs
      else (case split_on sep cs of
              w # ws \<Rightarrow> (c # w) # ws
            | [] \<Rightarrow> [[c]]))"

lemma split_ws_measure:
  assumes "dropWhile (\<lambda>c. \<not> is_space c) s \<noteq> []"
  shows "length (dropWhile is_space (dropWhile (\<lambda>c. \<not> is_space c) s)) < length s"
proof -
  let ?r = "dropWhile (\<lambda>c. \<not> is_space c) s"
  from assms obtain x xs where r: "?r = x # xs"
    by (cases ?r) auto
  have "is_space x"
    using hd_dropWhile [OF assms] r by simp
  then have "dropWhile is_space ?r = dropWhile is_space xs"
    using r by simp
  moreover have "length (dropWhile is_space xs) \<le> length xs"
    by (rule length_dropWhile_le)
  moreover have "length ?r \<le> length s"
    by (rule length_dropWhile_le)
  ultimately show ?thesis
    using r by simp
qed

text \<open>
  \<^verbatim>\<open>s.split(/\s+/)\<close>: the pieces between maximal runs of white space; a run at
  either end leaves an empty piece there, and the empty string gives one empty piece.
\<close>

function split_ws :: "string \<Rightarrow> string list" where
  "split_ws s =
     (let w = takeWhile (\<lambda>c. \<not> is_space c) s;
          r = dropWhile (\<lambda>c. \<not> is_space c) s
      in if r = [] then [w] else w # split_ws (dropWhile is_space r))"
  by pat_completeness auto
termination
  by (relation "measure length") (auto simp: split_ws_measure)

declare split_ws.simps [simp del]

definition digit_val :: "char \<Rightarrow> nat" where
  "digit_val c = of_char c - 48"

definition digits_val :: "string \<Rightarrow> nat" where
  "digits_val s = foldl (\<lambda>a c. 10 * a + digit_val c) 0 s"

definition digit_char :: "nat \<Rightarrow> char" where
  "digit_char n = ''0123456789'' ! n"

fun nat_toString :: "nat \<Rightarrow> string" where
  "nat_toString n =
     (if n < 10 then [digit_char n] else nat_toString (n div 10) @ [digit_char (n mod 10)])"

declare nat_toString.simps [simp del]

definition int_toString :: "int \<Rightarrow> string" where
  "int_toString i = (if i < 0 then CHR ''-'' # nat_toString (nat (- i)) else nat_toString (nat i))"

text \<open>\<^verbatim>\<open>s.padStart(2, '0')\<close>.\<close>

definition padStart2 :: "string \<Rightarrow> string" where
  "padStart2 s = replicate (2 - length s) CHR ''0'' @ s"


section \<open>Numbers\<close>

text \<open>
  A number of the platform is NaN, an infinity or a finite value. Finite values are exact
  reals here: rounding, overflow to an infinity and the sign of zero are not modelled.
\<close>

datatype number = NaN | PInf | NInf | Fin real

fun is_neg :: "number \<Rightarrow> bool" where
  "is_neg NInf = True"
| "is_neg (Fin x) = (x < 0)"
| "is_neg _ = False"

text \<open>\<^verbatim>\<open>a - b\<close>, \<^verbatim>\<open>a * b\<close>, \<^verbatim>\<open>a / b\<close>, \<^verbatim>\<open>Math.abs(a)\<close>.\<close>

fun sub :: "number \<Rightarrow> number \<Rightarrow> number" where
  "sub (Fin x) (Fin y) = Fin (x - y)"
| "sub NaN _ = NaN"
| "sub _ NaN = NaN"
| "sub PInf PInf = NaN"
| "sub NInf NInf = NaN"
| "sub PInf _ = PInf"
| "sub NInf _ = NInf"
| "sub _ PInf = NInf"
| "sub _ NInf = PInf"

fun mul :: "number \<Rightarrow> number \<Rightarrow> number" where
  "mul (Fin x) (Fin y) = Fin (x * y)"
| "mul NaN _ = NaN"
| "mul _ NaN = NaN"
| "mul a b =
     (if a = Fin 0 \<or> b = Fin 0 then NaN else if is_neg a = is_neg b then PInf else NInf)"

fun divn :: "number \<Rightarrow> number \<Rightarrow> number" where
  "divn (Fin x) (Fin y) =
     (if y \<noteq> 0 then Fin (x / y)
      else if x = 0 then NaN else if 0 < x then PInf else NInf)"
| "divn NaN _ = NaN"
| "divn _ NaN = NaN"
| "divn (Fin x) _ = Fin 0"
| "divn a (Fin y) = (if is_neg a = (y < 0) then PInf else NInf)"
| "divn _ _ = NaN"

fun absn :: "number \<Rightarrow> number" where
  "absn NaN = NaN"
| "absn (Fin x) = Fin \<bar>x\<bar>"
| "absn _ = PInf"

text \<open>\<^verbatim>\<open>a < b\<close> and \<^verbatim>\<open>a >= b\<close>: false as soon as one side is NaN.\<close>

fun lt :: "number \<Rightarrow> number \<Rightarrow> bool" where
  "lt (Fin x) (Fin y) = (x < y)"
| "lt NaN _ = False"
| "lt _ NaN = False"
| "lt _ NInf = False"
| "lt PInf _ = False"
| "lt _ _ = True"

definition ge :: "number \<Rightarrow> number \<Rightarrow> bool" where
  "ge a b = (a \<noteq> NaN \<and> b \<noteq> NaN \<and> \<not> lt a b)"

definition Math_min :: "number \<Rightarrow> number \<Rightarrow> number" where
  "Math_min a b = (if a = NaN \<or> b = NaN then NaN else if lt b a then b else a)"

text \<open>
  \<^verbatim>\<open>parseFloat(s)\<close>: leading white space is skipped, then the longest prefix that
  is a signed decimal literal (digits, an optional fraction, an optional exponent, or
  \<^verbatim>\<open>Infinity\<close>) is read; NaN when there is none.
\<close>

definition take_sign :: "string \<Rightarrow> bool \<times> string" where
  "take_sign s =
     (case s of
        [] \<Rightarrow> (False, s)
      | c # r \<Rightarrow>
          if c = CHR ''-'' then (True, r) else if c = CHR ''+'' then (False, r) else (False, s))"

definition exponent_part :: "string \<Rightarrow> int" where
  "exponent_part s =
     (case s of
        [] \<Rightarrow> 0
      | c # r \<Rightarrow>
          if c = CHR ''e'' \<or> c = CHR ''E'' then
            (let (eneg, r') = take_sign r; ed = takeWhile is_digit r'
             in if ed = [] then 0
                else if eneg then - int (digits_val ed) else int (digits_val ed))
          else 0)"

definition scale10 :: "real \<Rightarrow> int \<Rightarrow> real" where
  "scale10 m e = (if 0 \<le> e then m * 10 ^ nat e else m / 10 ^ nat (- e))"

definition parseFloat :: "string \<Rightarrow> number" where
  "parseFloat s =
     (let (neg, u) = take_sign (dropWhile is_space s)
      in if prefix ''Infinity'' u then (if neg then NInf else PInf)
         else
           (let ip = takeWhile is_digit u;
                r1 = dropWhile is_digit u;
                (fp, r2) =
                  (case r1 of
                     [] \<Rightarrow> ([], r1)
                   | c # r \<Rightarrow>
                       if c = CHR ''.'' then (takeWhile is_digit r, dropWhile is_digit r)
                       else ([], r1))
            in if ip = [] \<and> fp = [] then NaN
               else
                 (let m = real (digits_val ip) + real (digits_val fp) / 10 ^ length fp;
                      v = scale10 m (exponent_part r2)
                  in Fin (if neg then - v else v))))"

text \<open>
  A field typed \<^verbatim>\<open>number | string\<close>. For a number \<open>n\<close>, \<^verbatim>\<open>n.toString()\<close>
  is never empty and \<^verbatim>\<open>parseFloat\<close> reads \<open>n\<close> back from it, so
  \<^verbatim>\<open>parseFloat(v.toString())\<close> is \<open>n\<close> itself there.
\<close>

datatype scalar = NumV number | StrV string

text \<open>\<^verbatim>\<open>parseFloat(v.toString())\<close>.\<close>

fun parseFloat_toString :: "scalar \<Rightarrow> number" where
  "parseFloat_toString (NumV n) = n"
| "parseFloat_toString (StrV s) = parseFloat s"

text \<open>\<^verbatim>\<open>parseFloat(v?.toString() || "0")\<close>, \<open>None\<close> being an absent field.\<close>

fun parseFloat_toString_or0 :: "scalar option \<Rightarrow> number" where
  "parseFloat_toString_or0 None = parseFloat ''0''"
| "parseFloat_toString_or0 (Some (NumV n)) = n"
| "parseFloat_toString_or0 (Some (StrV s)) = parseFloat (if s = [] then ''0'' else s)"

text \<open>Truthiness of an optional field, and \<^verbatim>\<open>v !== 0\<close>.\<close>

fun truthy :: "scalar option \<Rightarrow> bool" where
  "truthy None = False"
| "truthy (Some (NumV n)) = (n \<noteq> NaN \<and> n \<noteq> Fin 0)"
| "truthy (Some (StrV s)) = (s \<noteq> [])"

fun strict_ne_zero :: "scalar option \<Rightarrow> bool" where
  "strict_ne_zero (Some (NumV n)) = (n \<noteq> Fin 0)"
| "strict_ne_zero _ = True"


section \<open>dateUtils.ts\<close>

subsection \<open>The platform's dates\<close>

text \<open>
  A \<^verbatim>\<open>Date\<close> is invalid or a calendar day of the local time zone, counted in days
  from 1 January 1970; the time of day plays no role in this program. The calendar is the
  proleptic Gregorian one, and local midnight is taken to exist on every day.
\<close>

datatype jsdate = InvalidDate | LocalDay int

definition days_from_civil :: "int \<Rightarrow> int \<Rightarrow> int \<Rightarrow> int" where
  "days_from_civil y m d =
     (let y' = (if m \<le> 2 then y - 1 else y);
          era = y' div 400;
          yoe = y' - era * 400;
          doy = (153 * (if 2 < m then m - 3 else m + 9) + 2) div 5 + d - 1;
          doe = yoe * 365 + yoe div 4 - yoe div 100 + doy
      in era * 146097 + doe - 719468)"

definition civil_from_days :: "int \<Rightarrow> int \<times> int \<times> int" where
  "civil_from_days z =
     (let z' = z + 719468;
          era = z' div 146097;
          doe = z' - era * 146097;
          yoe = (doe - doe div 1460 + doe div 36524 - doe div 146096) div 365;
          doy = doe - (365 * yoe + yoe div 4 - yoe div 100);
          mp = (5 * doy + 2) div 153;
          d = doy - (153 * mp + 2) div 5 + 1;
          m = (if mp < 10 then mp + 3 else mp - 9)
      in (if m \<le> 2 then yoe + era * 400 + 1 else yoe + era * 400, m, d))"

text \<open>
  \<^verbatim>\<open>new Date(year, monthIndex, day)\<close> on numbers, \<open>None\<close> being NaN: a year from 0
  to 99 means 1900 + year, a month or a day out of range carries over, and a day more than
  100,000,000 days from the epoch is invalid.
\<close>

definition newDate :: "int option \<Rightarrow> int option \<Rightarrow> int option \<Rightarrow> jsdate" where
  "newDate year monthIndex day =
     (case (year, monthIndex, day) of
        (Some y, Some m, Some d) \<Rightarrow>
          (let yr = (if 0 \<le> y \<and> y \<le> 99 then 1900 + y else y);
               z = days_from_civil (yr + m div 12) (m mod 12 + 1) 1 + d - 1
           in if \<bar>z\<bar> \<le> 100000000 then LocalDay z else InvalidDate)
      | _ \<Rightarrow> InvalidDate)"

text \<open>\<^verbatim>\<open>getFullYear()\<close>, \<^verbatim>\<open>getMonth()\<close>, \<^verbatim>\<open>getDate()\<close>; \<open>None\<close> is NaN.\<close>

fun getFullYear :: "jsdate \<Rightarrow> int option" where
  "getFullYear InvalidDate = None"
| "getFullYear (LocalDay z) = Some (fst (civil_from_days z))"

fun getMonth :: "jsdate \<Rightarrow> int option" where
  "getMonth InvalidDate = None"
| "getMonth (LocalDay z) = Some (fst (snd (civil_from_days z)) - 1)"

fun getDate :: "jsdate \<Rightarrow> int option" where
  "getDate InvalidDate = None"
| "getDate (LocalDay z) = Some (snd (snd (civil_from_days z)))"

text \<open>\<^verbatim>\<open>n.toString()\<close> and the interpolation of \<open>n\<close> in a template, for an integer or NaN.\<close>

fun num_toString :: "int option \<Rightarrow> string" where
  "num_toString None = ''NaN''"
| "num_toString (Some i) = int_toString i"

text \<open>
  \<^verbatim>\<open>Number(s)\<close> on a field cut out of a date string: decimal digits denote their
  value and the empty string 0. Every other string is NaN here; the platform also reads
  signs, fractions, exponents and surrounding white space, none of which is left in a field
  of a string that passed one of the fixed patterns.
\<close>

definition Number_of :: "string \<Rightarrow> int option" where
  "Number_of s = (if list_all is_digit s then Some (int (digits_val s)) else None)"

text \<open>\<^verbatim>\<open>parseInt(s)\<close> on a group \<^verbatim>\<open>(\d{1,2})\<close> or \<^verbatim>\<open>(\d{4})\<close> of a match.\<close>

definition parseInt :: "string \<Rightarrow> int" where
  "parseInt s = int (digits_val s)"

text \<open>The \<open>i\<close>-th variable of a destructuring \<^verbatim>\<open>[a, b, c] = xs.map(Number)\<close>.\<close>

definition destructured :: "int option list \<Rightarrow> nat \<Rightarrow> int option" where
  "destructured xs i = (if i < length xs then xs ! i else None)"

text \<open>
  A regular expression of \<^verbatim>\<open>dateFormats\<close>, written as the string it admits with
  \<open>d\<close> for \<^verbatim>\<open>\d\<close>; all of them are anchored at both ends.
\<close>

definition regex_test :: "string \<Rightarrow> string \<Rightarrow> bool" where
  "regex_test re s = list_all2 (\<lambda>p c. if p = CHR ''d'' then is_digit c else p = c) re s"

text \<open>
  The regular expressions of \<^verbatim>\<open>monthNameFormats\<close>:
  \<^verbatim>\<open>/^([A-Za-z]+)\s+(\d{1,2}),\s+(\d{4})$/\<close> for \<open>None\<close> and
  \<^verbatim>\<open>/^([A-Za-z]{3})\s+(\d{1,2}),\s+(\d{4})$/\<close> for \<open>Some 3\<close>. Each class
  excludes the character that must follow it, so every group is a maximal run. The result
  is the three groups of the match.
\<close>

definition month_regex_match :: "nat option \<Rightarrow> string \<Rightarrow> (string \<times> string \<times> string) option" where
  "month_regex_match letters s =
     (let name = takeWhile is_alpha s; r1 = dropWhile is_alpha s;
          ws1 = takeWhile is_space r1; r2 = dropWhile is_space r1;
          dd = takeWhile is_digit r2; r3 = dropWhile is_digit r2
      in case r3 of
           [] \<Rightarrow> None
         | c # r4 \<Rightarrow>
             (let ws2 = takeWhile is_space r4; yyyy = dropWhile is_space r4
              in if name \<noteq> [] \<and> (case letters of None \<Rightarrow> True | Some n \<Rightarrow> length name = n)
                    \<and> ws1 \<noteq> [] \<and> (length dd = 1 \<or> length dd = 2) \<and> c = CHR '',''
                    \<and> ws2 \<noteq> [] \<and> length yyyy = 4 \<and> list_all is_digit yyyy
                 then Some (name, dd, yyyy)
                 else None))"

text \<open>\<^verbatim>\<open>xs.findIndex(p)\<close>.\<close>

fun findIndex :: "('a \<Rightarrow> bool) \<Rightarrow> 'a list \<Rightarrow> int" where
  "findIndex p [] = - 1"
| "findIndex p (x # xs) =
     (if p x then 0 else (let i = findIndex p xs in if i = - 1 then - 1 else i + 1))"

subsection \<open>The module\<close>

definition dateFormats :: "(string \<times> string) list" where
  "dateFormats =
     [(''dddd-dd-dd dd:dd:dd'', ''YYYY-MM-DD HH:mm:ss''),
      (''dddd-dd-dd'', ''YYYY-MM-DD''),
      (''dd/dd/dddd'', ''MM/DD/YYYY''),
      (''dd/dd/dd'', ''MM/DD/YY''),
      (''dd/dd/dddd'', ''DD/MM/YYYY''),
      (''dd-dd-dddd'', ''MM-DD-YYYY''),
      (''dd-dd-dddd'', ''DD-MM-YYYY'')]"

definition monthNameFormats :: "nat option list" where
  "monthNameFormats = [None, Some 3]"

text \<open>
  \<^verbatim>\<open>parseDate\<close>; \<open>None\<close> is its \<^verbatim>\<open>null\<close>. Splitting, mapping and destructuring
  do not throw; its handler would be entered for a missing \<^verbatim>\<open>parts[0]\<close> only.
\<close>

definition parseDate :: "string \<Rightarrow> string \<Rightarrow> jsdate option" where
  "parseDate dateStr format =
     (if format = ''YYYY-MM-DD HH:mm:ss'' then
        (case split_on CHR '' '' dateStr of
           [] \<Rightarrow> None
         | datePart # _ \<Rightarrow>
             (let f = map Number_of (split_on CHR ''-'' datePart);
                  year = destructured f 0; month = destructured f 1; day = destructured f 2
              in Some (newDate year (map_option (\<lambda>m. m - 1) month) day)))
      else if format = ''YYYY-MM-DD'' then
        (let f = map Number_of (split_on CHR ''-'' dateStr);
             year = destructured f 0; month = destructured f 1; day = destructured f 2
         in Some (newDate year (map_option (\<lambda>m. m - 1) month) day))
      else if format = ''MM/DD/YYYY'' then
        (let f = map Number_of (split_on CHR ''/'' dateStr);
             month = destructured f 0; day = destructured f 1; year = destructured f 2
         in Some (newDate year (map_option (\<lambda>m. m - 1) month) day))
      else if format = ''MM/DD/YY'' then
        (let f = map Number_of (split_on CHR ''/'' dateStr);
             month = destructured f 0; day = destructured f 1; year = destructured f 2;
             fullYear = map_option (\<lambda>y. if y < 50 then 2000 + y else 1900 + y) year
         in Some (newDate fullYear (map_option (\<lambda>m. m - 1) month) day))
      else if format = ''DD/MM/YYYY'' then
        (let f = map Number_of (split_on CHR ''/'' dateStr);
             day = destructured f 0; month = destructured f 1; year = destructured f 2
         in Some (newDate year (map_option (\<lambda>m. m - 1) month) day))
      else if format = ''MM-DD-YYYY'' then
        (let f = map Number_of (split_on CHR ''-'' dateStr);
             month = destructured f 0; day = destructured f 1; year = destructured f 2
         in Some (newDate year (map_option (\<lambda>m. m - 1) month) day))
      else if format = ''DD-MM-YYYY'' then
        (let f = map Number_of (split_on CHR ''-'' dateStr);
             day = destructured f 0; month = destructured f 1; year = destructured f 2
         in Some (newDate year (map_option (\<lambda>m. m - 1) month) day))
      else None)"

definition formatDate :: "jsdate \<Rightarrow> string" where
  "formatDate date =
     (let month = padStart2 (num_toString (map_option (\<lambda>m. m + 1) (getMonth date)));
          day = padStart2 (num_toString (getDate date));
          year = num_toString (getFullYear date)
      in month @ ''/'' @ day @ ''/'' @ year)"

definition getMonthIndex :: "string \<Rightarrow> int" where
  "getMonthIndex monthName =
     (let months =
            [''January'', ''February'', ''March'', ''April'', ''May'', ''June'',
             ''July'', ''August'', ''September'', ''October'', ''November'', ''December''];
          shortMonths =
            [''Jan'', ''Feb'', ''Mar'', ''Apr'', ''May'', ''Jun'',
             ''Jul'', ''Aug'', ''Sep'', ''Oct'', ''Nov'', ''Dec''];
          fullIndex = findIndex (\<lambda>month. toLowerCase month = toLowerCase monthName) months
      in if fullIndex \<noteq> - 1 then fullIndex
         else findIndex (\<lambda>month. toLowerCase month = toLowerCase monthName) shortMonths)"

text \<open>
  The first loop of \<^verbatim>\<open>standardizeDate\<close>, over \<^verbatim>\<open>dateFormats\<close>. Beside the date
  it returns, it records the formats it called \<^verbatim>\<open>parseDate\<close> with, in order.
\<close>

fun tryFormats :: "(string \<times> string) list \<Rightarrow> string \<Rightarrow> string list \<times> jsdate option" where
  "tryFormats [] s = ([], None)"
| "tryFormats ((regex, format) # rest) s =
     (if regex_test regex s then
        (case parseDate s format of
           Some parsedDate \<Rightarrow> ([format], Some parsedDate)
         | None \<Rightarrow> (let (calls, r) = tryFormats rest s in (format # calls, r)))
      else tryFormats rest s)"

text \<open>The second loop, over \<^verbatim>\<open>monthNameFormats\<close>.\<close>

fun tryMonthNames :: "nat option list \<Rightarrow> string \<Rightarrow> jsdate option" where
  "tryMonthNames [] s = None"
| "tryMonthNames (regex # rest) s =
     (case month_regex_match regex s of
        None \<Rightarrow> tryMonthNames rest s
      | Some (monthName, g2, g3) \<Rightarrow>
          (let day = parseInt g2; year = parseInt g3; monthIndex = getMonthIndex monthName
           in if monthIndex \<noteq> - 1 then
                (let date = newDate (Some year) (Some monthIndex) (Some day)
                 in if date \<noteq> InvalidDate then Some date else tryMonthNames rest s)
              else tryMonthNames rest s))"

text \<open>
  The body of the \<^verbatim>\<open>try\<close> of \<^verbatim>\<open>standardizeDate\<close>. What
  \<^verbatim>\<open>new Date(trimmedDateStr)\<close> makes of a string is left to the platform, so it is
  the parameter \<open>newDateOfString\<close>; it may yield a date (invalid when the string is not
  understood) or throw, which is \<open>Inl\<close>.
\<close>

definition standardizeDate_try :: "(string \<Rightarrow> 'e + jsdate) \<Rightarrow> string \<Rightarrow> 'e + string" where
  "standardizeDate_try newDateOfString dateStr =
     (let trimmedDateStr = trim dateStr
      in case snd (tryFormats dateFormats trimmedDateStr) of
           Some parsedDate \<Rightarrow> Inr (formatDate parsedDate)
         | None \<Rightarrow>
             (case newDateOfString trimmedDateStr of
                Inl e \<Rightarrow> Inl e
              | Inr parsedDate \<Rightarrow>
                  if parsedDate \<noteq> InvalidDate then Inr (formatDate parsedDate)
                  else
                    (case tryMonthNames monthNameFormats trimmedDateStr of
                       Some date \<Rightarrow> Inr (formatDate date)
                     | None \<Rightarrow> Inr trimmedDateStr)))"

text \<open>
  \<^verbatim>\<open>standardizeDate\<close>; \<open>None\<close> is \<^verbatim>\<open>null\<close> or \<^verbatim>\<open>undefined\<close>. The
  \<^verbatim>\<open>catch\<close> returns the string as it came.
\<close>

definition standardizeDate :: "(string \<Rightarrow> 'e + jsdate) \<Rightarrow> string option \<Rightarrow> string" where
  "standardizeDate newDateOfString dateStr =
     (case dateStr of
        None \<Rightarrow> []
      | Some s \<Rightarrow>
          if s = [] \<or> s = ''NULL'' then []
          else (case standardizeDate_try newDateOfString s of
                  Inr r \<Rightarrow> r
                | Inl e \<Rightarrow> s))"

definition datesEqual :: "string \<Rightarrow> string \<Rightarrow> bool" where
  "datesEqual date1 date2 =
     (if date1 = [] \<or> date2 = [] then date1 = [] \<and> date2 = [] else date1 = date2)"


section \<open>types.ts\<close>

record LineItem =
  productName :: string
  quantity :: scalar
  unitPrice :: "scalar option"
  totalPrice :: "scalar option"
  price :: "scalar option"
  deliveryDate :: "string option"

record InvoiceData =
  poNumber :: string
  invoiceDate :: "string option"
  lineItems :: "LineItem list"

record PurchaseOrderRecord =
  PurchaseOrderID :: string
  PurchaseQty :: scalar
  PurchasePrice :: scalar
  DateRequired :: string
  PurchaseSupplierItem :: string
  PurchaseSupplierDescription :: string

datatype source = INVOICE | PO

datatype status = MATCH | DISCREPANCY | NO_MATCH_status

text \<open>
  The fields \<^verbatim>\<open>"PO #"\<close>, \<^verbatim>\<open>"Item/Description"\<close>, \<^verbatim>\<open>"Unit Price"\<close>,
  \<^verbatim>\<open>"Total Price"\<close>, \<^verbatim>\<open>_qty_match\<close>, \<^verbatim>\<open>_price_match\<close> and
  \<^verbatim>\<open>_date_match\<close> are spelt as identifiers; an absent flag is \<open>None\<close>.
\<close>

record ReconciliationResult =
  Source :: source
  PO_number :: string
  Item_Description :: string
  Qty :: number
  Unit_Price :: number
  Total_Price :: number
  Date :: string
  Status :: status
  qty_match :: "bool option"
  price_match :: "bool option"
  date_match :: "bool option"

record ReconciliationSummary =
  totalItems :: nat
  matches :: nat
  discrepancies :: nat
  noMatches :: nat

record MatchingOptions =
  quantityTolerance :: "number option"
  priceTolerance :: "number option"
  minKeywordMatches :: "number option"
  requireDateMatch :: "bool option"


section \<open>reconciliation.ts\<close>

text \<open>
  The fields of \<^verbatim>\<open>opts\<close>: the defaults, overridden by the options given. An option is
  given (\<open>Some\<close>) or left out (\<open>None\<close>); an option given as \<^verbatim>\<open>undefined\<close> is not
  modelled.
\<close>

definition opts_quantityTolerance :: "MatchingOptions \<Rightarrow> number" where
  "opts_quantityTolerance options = (case quantityTolerance options of None \<Rightarrow> Fin 0.01 | Some v \<Rightarrow> v)"

definition opts_priceTolerance :: "MatchingOptions \<Rightarrow> number" where
  "opts_priceTolerance options = (case priceTolerance options of None \<Rightarrow> Fin 0.01 | Some v \<Rightarrow> v)"

definition opts_minKeywordMatches :: "MatchingOptions \<Rightarrow> number" where
  "opts_minKeywordMatches options = (case minKeywordMatches options of None \<Rightarrow> Fin 3 | Some v \<Rightarrow> v)"

definition opts_requireDateMatch :: "MatchingOptions \<Rightarrow> bool" where
  "opts_requireDateMatch options = (case requireDateMatch options of None \<Rightarrow> False | Some v \<Rightarrow> v)"

text \<open>\<^verbatim>\<open>xs[0]\<close>, \<open>None\<close> being \<^verbatim>\<open>undefined\<close>.\<close>

fun first :: "'a list \<Rightarrow> 'a option" where
  "first [] = None"
| "first (x # xs) = Some x"

text \<open>\<^verbatim>\<open>s.replace(/\n/g, ' ')\<close>.\<close>

definition replace_newlines :: "string \<Rightarrow> string" where
  "replace_newlines s = map (\<lambda>c. if c = CHR 0x0A then CHR '' '' else c) s"

text \<open>Lines 44 to 60: the working set of purchase orders, and a line item's quantity and price.\<close>

definition matchingPOs_of :: "InvoiceData \<Rightarrow> PurchaseOrderRecord list \<Rightarrow> PurchaseOrderRecord list" where
  "matchingPOs_of invoiceData poRecords =
     filter (\<lambda>po. PurchaseOrderID po = poNumber invoiceData) poRecords"

definition invoiceQty_of :: "LineItem \<Rightarrow> number" where
  "invoiceQty_of item = parseFloat_toString_or0 (Some (quantity item))"

definition invoicePrice_of :: "LineItem \<Rightarrow> number" where
  "invoicePrice_of item =
     (case (if truthy (unitPrice item) \<and> strict_ne_zero (unitPrice item)
            then unitPrice item else None) of
        Some u \<Rightarrow> parseFloat_toString u
      | None \<Rightarrow>
          (case (if truthy (totalPrice item) \<and> strict_ne_zero (totalPrice item)
                    \<and> invoiceQty_of item \<noteq> Fin 0
                 then totalPrice item else None) of
             Some t \<Rightarrow> divn (parseFloat_toString t) (invoiceQty_of item)
           | None \<Rightarrow> parseFloat_toString_or0 (price item)))"

text \<open>Lines 63 to 102: the candidates of a line item named \<open>itemName\<close>.\<close>

definition keywordMatches_of :: "string list \<Rightarrow> PurchaseOrderRecord \<Rightarrow> nat" where
  "keywordMatches_of itemKeywords poRow =
     (let poDesc = toUpperCase (PurchaseSupplierDescription poRow);
          poItem = toUpperCase (PurchaseSupplierItem poRow)
      in foldl (\<lambda>count keyword.
                 count + (if str_includes poDesc keyword \<or> str_includes poItem keyword then 1 else 0))
           0 itemKeywords)"

definition poCandidates_of ::
  "MatchingOptions \<Rightarrow> PurchaseOrderRecord list \<Rightarrow> string \<Rightarrow> PurchaseOrderRecord list" where
  "poCandidates_of options matchingPOs itemName =
     (let byItem =
            filter (\<lambda>po. PurchaseSupplierItem po \<noteq> []
                         \<and> str_includes (toLowerCase (PurchaseSupplierItem po)) (toLowerCase itemName))
              matchingPOs;
          byDescription =
            (if length byItem = 0 then
               filter (\<lambda>po. PurchaseSupplierDescription po \<noteq> []
                            \<and> str_includes (toLowerCase (PurchaseSupplierDescription po))
                                 (toLowerCase itemName))
                 matchingPOs
             else byItem)
      in if length byDescription = 0 then
           (let itemKeywords = filter (\<lambda>keyword. 0 < length keyword) (split_ws (toUpperCase itemName));
                minMatches =
                  Math_min (opts_minKeywordMatches options) (Fin (real (length itemKeywords div 2)));
                candidateRows =
                  foldl (\<lambda>rows poRow.
                          if ge (Fin (real (keywordMatches_of itemKeywords poRow))) minMatches
                          then rows @ [poRow] else rows)
                    [] matchingPOs
            in if 0 < length candidateRows then candidateRows else byDescription)
         else byDescription)"

text \<open>Lines 104 to 138: the match chosen among the candidates; \<open>None\<close> is \<^verbatim>\<open>null\<close>.\<close>

definition poMatch_of ::
  "MatchingOptions \<Rightarrow> number \<Rightarrow> number \<Rightarrow> PurchaseOrderRecord list \<Rightarrow> PurchaseOrderRecord option" where
  "poMatch_of options invoiceQty invoicePrice poCandidates =
     (if 0 < length poCandidates then
        (let exactMatches =
               filter (\<lambda>po.
                   lt (absn (sub (parseFloat_toString (PurchaseQty po)) invoiceQty))
                     (opts_quantityTolerance options)
                   \<and> lt (absn (sub (parseFloat_toString (PurchasePrice po)) invoicePrice))
                       (opts_priceTolerance options))
                 poCandidates
         in if 0 < length exactMatches then first exactMatches
            else
              (let qtyMatches =
                     filter (\<lambda>po.
                         lt (absn (sub (parseFloat_toString (PurchaseQty po)) invoiceQty))
                           (opts_quantityTolerance options))
                       poCandidates
               in if 0 < length qtyMatches then first qtyMatches
                  else
                    (let priceMatches =
                           filter (\<lambda>po.
                               lt (absn (sub (parseFloat_toString (PurchasePrice po)) invoicePrice))
                                 (opts_priceTolerance options))
                             poCandidates
                     in if 0 < length priceMatches then first priceMatches
                        else first poCandidates)))
      else None)"

text \<open>Lines 140 to 201: the rows one line item appends to the results.\<close>

definition itemDate_of :: "InvoiceData \<Rightarrow> LineItem \<Rightarrow> string" where
  "itemDate_of invoiceData item =
     (let itemDeliveryDate = (case deliveryDate item of None \<Rightarrow> [] | Some d \<Rightarrow> d)
      in if itemDeliveryDate \<noteq> [] then itemDeliveryDate
         else (case invoiceDate invoiceData of None \<Rightarrow> [] | Some d \<Rightarrow> d))"

definition itemRows ::
  "(string \<Rightarrow> 'e + jsdate) \<Rightarrow> MatchingOptions \<Rightarrow> InvoiceData \<Rightarrow> PurchaseOrderRecord list
     \<Rightarrow> LineItem \<Rightarrow> ReconciliationResult list" where
  "itemRows newDateOfString options invoiceData matchingPOs item =
     (let itemName = productName item;
          invoiceQty = invoiceQty_of item;
          invoicePrice = invoicePrice_of item;
          poCandidates = poCandidates_of options matchingPOs itemName
      in case poMatch_of options invoiceQty invoicePrice poCandidates of
           Some poMatch \<Rightarrow>
             (let poQty = parseFloat_toString (PurchaseQty poMatch);
                  poPrice = parseFloat_toString (PurchasePrice poMatch);
                  poDateRequired = DateRequired poMatch;
                  qtyMatch = lt (absn (sub invoiceQty poQty)) (opts_quantityTolerance options);
                  priceMatch = lt (absn (sub invoicePrice poPrice)) (opts_priceTolerance options);
                  itemDate = itemDate_of invoiceData item;
                  invoiceDateStd = standardizeDate newDateOfString (Some itemDate);
                  poDateStd = standardizeDate newDateOfString (Some poDateRequired);
                  dateMatch =
                    (if opts_requireDateMatch options then datesEqual invoiceDateStd poDateStd
                     else True);
                  invoiceResult =
                    \<lparr>Source = INVOICE, PO_number = poNumber invoiceData,
                     Item_Description = itemName, Qty = invoiceQty, Unit_Price = invoicePrice,
                     Total_Price = mul invoiceQty invoicePrice, Date = invoiceDateStd,
                     Status = (if qtyMatch \<and> priceMatch \<and> dateMatch then MATCH else DISCREPANCY),
                     qty_match = Some qtyMatch, price_match = Some priceMatch,
                     date_match = Some dateMatch\<rparr>;
                  poResult =
                    \<lparr>Source = PO, PO_number = PurchaseOrderID poMatch,
                     Item_Description =
                       PurchaseSupplierItem poMatch @ '' - ''
                         @ replace_newlines (PurchaseSupplierDescription poMatch),
                     Qty = poQty, Unit_Price = poPrice, Total_Price = mul poQty poPrice,
                     Date = poDateStd,
                     Status = (if qtyMatch \<and> priceMatch \<and> dateMatch then MATCH else DISCREPANCY),
                     qty_match = Some qtyMatch, price_match = Some priceMatch,
                     date_match = Some dateMatch\<rparr>
              in [invoiceResult, poResult])
         | None \<Rightarrow>
             (let itemDate = itemDate_of invoiceData item;
                  invoiceResult =
                    \<lparr>Source = INVOICE, PO_number = poNumber invoiceData,
                     Item_Description = itemName, Qty = invoiceQty, Unit_Price = invoicePrice,
                     Total_Price = mul invoiceQty invoicePrice,
                     Date = standardizeDate newDateOfString (Some itemDate),
                     Status = NO_MATCH_status,
                     qty_match = None, price_match = None, date_match = None\<rparr>
              in [invoiceResult]))"

text \<open>\<^verbatim>\<open>reconcileInvoiceData\<close>: the loop appends each line item's rows to the results.\<close>

definition reconcileInvoiceData ::
  "(string \<Rightarrow> 'e + jsdate) \<Rightarrow> InvoiceData \<Rightarrow> PurchaseOrderRecord list \<Rightarrow> MatchingOptions
     \<Rightarrow> ReconciliationResult list" where
  "reconcileInvoiceData newDateOfString invoiceData poRecords options =
     (if length poRecords = 0 then []
      else
        (let matchingPOs = matchingPOs_of invoiceData poRecords
         in foldl (\<lambda>reconciliationResults item.
                    reconciliationResults
                      @ itemRows newDateOfString options invoiceData matchingPOs item)
              [] (lineItems invoiceData)))"

definition generateReconciliationSummary :: "ReconciliationResult list \<Rightarrow> ReconciliationSummary" where
  "generateReconciliationSummary results =
     (let invoiceRows = filter (\<lambda>r. Source r = INVOICE) results
      in \<lparr>totalItems = length invoiceRows,
          matches = length (filter (\<lambda>r. Status r = MATCH) invoiceRows),
          discrepancies = length (filter (\<lambda>r. Status r = DISCREPANCY) invoiceRows),
          noMatches = length (filter (\<lambda>r. Status r = NO_MATCH_status) invoiceRows)\<rparr>)"


section \<open>Notions of the specification\<close>

text \<open>The absolute difference of \<open>a\<close> and \<open>b\<close> is strictly below the tolerance.\<close>

definition within_tolerance :: "number \<Rightarrow> number \<Rightarrow> number \<Rightarrow> bool" where
  "within_tolerance a b tol = lt (absn (sub a b)) tol"

text \<open>
  The comparison date of a line item: its delivery date if present (given and not empty),
  else the invoice date of the document, else empty.
\<close>

definition comparison_date :: "InvoiceData \<Rightarrow> LineItem \<Rightarrow> string" where
  "comparison_date invoiceData item =
     (case deliveryDate item of
        Some d \<Rightarrow>
          if d \<noteq> [] then d else (case invoiceDate invoiceData of Some i \<Rightarrow> i | None \<Rightarrow> [])
      | None \<Rightarrow> (case invoiceDate invoiceData of Some i \<Rightarrow> i | None \<Rightarrow> []))"

text \<open>
  The stages of candidate selection: \<open>s\<close> contains \<open>t\<close> without regard to case; the
  keyword tokens of a product name, in upper case; how many of them occur in the description
  or the item code of a record; the number of them a record has to reach.
\<close>

definition contains_ci :: "string \<Rightarrow> string \<Rightarrow> bool" where
  "contains_ci s t = str_includes (toLowerCase s) (toLowerCase t)"

definition keyword_tokens :: "string \<Rightarrow> string list" where
  "keyword_tokens name = filter (\<lambda>k. k \<noteq> []) (split_ws (toUpperCase name))"

definition keyword_count :: "string list \<Rightarrow> PurchaseOrderRecord \<Rightarrow> nat" where
  "keyword_count tokens po =
     length (filter (\<lambda>k. str_includes (toUpperCase (PurchaseSupplierDescription po)) k
                        \<or> str_includes (toUpperCase (PurchaseSupplierItem po)) k) tokens)"

definition keyword_threshold :: "MatchingOptions \<Rightarrow> string list \<Rightarrow> number" where
  "keyword_threshold options tokens =
     Math_min (opts_minKeywordMatches options) (Fin (real (length tokens div 2)))"

definition stage_a :: "PurchaseOrderRecord list \<Rightarrow> string \<Rightarrow> PurchaseOrderRecord list" where
  "stage_a pos name =
     filter (\<lambda>po. PurchaseSupplierItem po \<noteq> [] \<and> contains_ci (PurchaseSupplierItem po) name) pos"

definition stage_b :: "PurchaseOrderRecord list \<Rightarrow> string \<Rightarrow> PurchaseOrderRecord list" where
  "stage_b pos name =
     filter (\<lambda>po. PurchaseSupplierDescription po \<noteq> []
                  \<and> contains_ci (PurchaseSupplierDescription po) name) pos"

definition stage_c ::
  "MatchingOptions \<Rightarrow> PurchaseOrderRecord list \<Rightarrow> string \<Rightarrow> PurchaseOrderRecord list" where
  "stage_c options pos name =
     filter (\<lambda>po. ge (Fin (real (keyword_count (keyword_tokens name) po)))
                    (keyword_threshold options (keyword_tokens name))) pos"

definition stage_a_as_claimed :: "PurchaseOrderRecord list \<Rightarrow> string \<Rightarrow> PurchaseOrderRecord list" where
  "stage_a_as_claimed pos name = filter (\<lambda>po. contains_ci (PurchaseSupplierItem po) name) pos"

text \<open>
  A price field that is present and not zero, the number a field stands for with an absent
  or empty one read as 0, and a field whose text is not empty and reads as zero.
\<close>

definition present_nonzero :: "scalar option \<Rightarrow> bool" where
  "present_nonzero v =
     (case v of
        None \<Rightarrow> False
      | Some (NumV n) \<Rightarrow> n \<noteq> Fin 0 \<and> n \<noteq> NaN
      | Some (StrV s) \<Rightarrow> s \<noteq> [] \<and> parseFloat s \<noteq> Fin 0)"

definition zero_text :: "scalar option \<Rightarrow> bool" where
  "zero_text v = (case v of Some (StrV s) \<Rightarrow> s \<noteq> [] \<and> parseFloat s = Fin 0 | _ \<Rightarrow> False)"

definition field_or_zero :: "scalar option \<Rightarrow> number" where
  "field_or_zero v =
     (case v of
        None \<Rightarrow> Fin 0
      | Some (NumV n) \<Rightarrow> n
      | Some (StrV s) \<Rightarrow> if s = [] then Fin 0 else parseFloat s)"

text \<open>The strategies of \<^verbatim>\<open>standardizeDate\<close> that can succeed on a trimmed string.\<close>

definition fixed_pattern_matches :: "string \<Rightarrow> bool" where
  "fixed_pattern_matches t = list_ex (\<lambda>(regex, format). regex_test regex t) dateFormats"

definition month_name_matches :: "string \<Rightarrow> bool" where
  "month_name_matches t =
     list_ex (\<lambda>regex. case month_regex_match regex t of
                        None \<Rightarrow> False
                      | Some (monthName, g2, g3) \<Rightarrow> getMonthIndex monthName \<noteq> - 1)
       monthNameFormats"


section \<open>Examples\<close>

text \<open>
  A platform whose \<^verbatim>\<open>new Date(string)\<close> understands no string, and one where it
  throws.
\<close>

definition no_generic_parse :: "string \<Rightarrow> unit + jsdate" where
  "no_generic_parse s = Inr InvalidDate"

definition throwing_parse :: "string \<Rightarrow> unit + jsdate" where
  "throwing_parse s = Inl ()"

definition default_options :: MatchingOptions where
  "default_options =
     \<lparr>quantityTolerance = None, priceTolerance = None, minKeywordMatches = None,
      requireDateMatch = None\<rparr>"

definition widget_item :: LineItem where
  "widget_item =
     \<lparr>productName = ''Widget A'', quantity = NumV (Fin 10), unitPrice = Some (NumV (Fin 5)),
      totalPrice = None, price = None, deliveryDate = None\<rparr>"

definition gadget_item :: LineItem where
  "gadget_item =
     \<lparr>productName = ''Gadget'', quantity = NumV (Fin 10), unitPrice = Some (NumV (Fin 5)),
      totalPrice = None, price = None, deliveryDate = None\<rparr>"

definition total_only_item :: LineItem where
  "total_only_item =
     \<lparr>productName = ''Widget A'', quantity = StrV ''10'', unitPrice = None,
      totalPrice = Some (NumV (Fin 50)), price = None, deliveryDate = None\<rparr>"

definition zero_total_item :: LineItem where
  "zero_total_item =
     \<lparr>productName = ''Widget A'', quantity = NumV (Fin 10), unitPrice = Some (NumV (Fin 5)),
      totalPrice = Some (StrV ''0''), price = None, deliveryDate = None\<rparr>"

definition legacy_item :: LineItem where
  "legacy_item =
     \<lparr>productName = ''Widget A'', quantity = NumV (Fin 10), unitPrice = None,
      totalPrice = None, price = Some (StrV ''2.5''), deliveryDate = None\<rparr>"

definition unparsable_item :: LineItem where
  "unparsable_item =
     \<lparr>productName = ''Widget A'', quantity = StrV ''abc'', unitPrice = Some (NumV (Fin 5)),
      totalPrice = None, price = None, deliveryDate = None\<rparr>"

definition invoice_of :: "LineItem \<Rightarrow> InvoiceData" where
  "invoice_of item = \<lparr>poNumber = ''PO1'', invoiceDate = None, lineItems = [item]\<rparr>"

definition widget_po :: "real \<Rightarrow> PurchaseOrderRecord" where
  "widget_po q =
     \<lparr>PurchaseOrderID = ''PO1'', PurchaseQty = NumV (Fin q), PurchasePrice = NumV (Fin 5),
      DateRequired = ''2025-01-01'', PurchaseSupplierItem = ''WIDGET-A'',
      PurchaseSupplierDescription = ''Widget A''\<rparr>"

definition coded_po :: "string \<Rightarrow> PurchaseOrderRecord" where
  "coded_po code =
     \<lparr>PurchaseOrderID = ''PO1'', PurchaseQty = NumV (Fin 1), PurchasePrice = NumV (Fin 1),
      DateRequired = ''2025-01-01'', PurchaseSupplierItem = code,
      PurchaseSupplierDescription = ''Spare part''\<rparr>"


section \<open>Auxiliary lemmas\<close>

text \<open>\<open>str_includes\<close> is containment as a contiguous block.\<close>

lemma str_includes_sublist: "str_includes s t \<longleftrightarrow> sublist t s"
  by (induction s) (simp_all add: sublist_Cons_right)

lemma str_includes_empty: "str_includes s []"
  by (simp add: str_includes_sublist)

lemma foldl_append_concat:
  "foldl (\<lambda>acc x. acc @ f x) a xs = a @ concat (map f xs)"
  by (induction xs arbitrary: a) simp_all

lemma first_filter: "first (filter P xs) = find P xs"
  by (induction xs) simp_all

lemma filter_nonempty_find: "0 < length (filter P xs) \<longleftrightarrow> find P xs \<noteq> None"
  by (induction xs) simp_all

lemma find_None_cong:
  assumes "find (\<lambda>x. P x \<and> Q x) xs = None"
  shows "find P xs = find (\<lambda>x. P x \<and> \<not> Q x) xs"
  using assms by (induction xs) (auto split: if_splits)

lemma first_hd: "xs \<noteq> [] \<Longrightarrow> first xs = Some (hd xs)"
  by (cases xs) simp_all

lemma staged_first:
  "(if 0 < length xs then
      (let e = filter (\<lambda>x. Q x \<and> P x) xs
       in if 0 < length e then first e
          else (let q = filter Q xs
                in if 0 < length q then first q
                   else (let p = filter P xs
                         in if 0 < length p then first p else first xs)))
    else None) =
   (if xs = [] then None
    else (case find (\<lambda>x. Q x \<and> P x) xs of
            Some m \<Rightarrow> Some m
          | None \<Rightarrow>
              (case find (\<lambda>x. Q x \<and> \<not> P x) xs of
                 Some m \<Rightarrow> Some m
               | None \<Rightarrow>
                   (case find (\<lambda>x. P x \<and> \<not> Q x) xs of
                      Some m \<Rightarrow> Some m
                    | None \<Rightarrow> Some (hd xs)))))"
proof (cases "xs = []")
  case True
  then show ?thesis by simp
next
  case False
  note ne = False
  show ?thesis
  proof (cases "find (\<lambda>x. Q x \<and> P x) xs")
    case (Some m)
    then show ?thesis
      using ne unfolding Let_def filter_nonempty_find first_filter by simp
  next
    case None
    note both = None
    have q: "find Q xs = find (\<lambda>x. Q x \<and> \<not> P x) xs"
      using find_None_cong [OF both] .
    show ?thesis
    proof (cases "find Q xs")
      case (Some m)
      then show ?thesis
        using ne both q unfolding Let_def filter_nonempty_find first_filter by simp
    next
      case None
      then have "find (\<lambda>x. P x \<and> Q x) xs = None"
        by (auto simp: find_None_iff)
      then have p: "find P xs = find (\<lambda>x. P x \<and> \<not> Q x) xs"
        by (rule find_None_cong)
      show ?thesis
        using ne both q None p first_hd [OF ne]
        unfolding Let_def filter_nonempty_find first_filter
        by (simp split: option.splits)
    qed
  qed
qed

lemma status_partition:
  "length (filter (\<lambda>r. Status r = MATCH) rows)
     + length (filter (\<lambda>r. Status r = DISCREPANCY) rows)
     + length (filter (\<lambda>r. Status r = NO_MATCH_status) rows) = length rows"
proof (induction rows)
  case Nil
  then show ?case by simp
next
  case (Cons r rows)
  then show ?case by (cases "Status r") simp_all
qed

lemma itemDate_of_comparison_date: "itemDate_of invoiceData item = comparison_date invoiceData item"
  by (simp add: itemDate_of_def comparison_date_def split: option.splits)

lemma foldl_push_filter:
  "foldl (\<lambda>rows x. if P x then rows @ [x] else rows) acc xs = acc @ filter P xs"
  by (induction xs arbitrary: acc) simp_all

lemma foldl_count_filter:
  "foldl (\<lambda>count k. count + (if P k then 1 else 0)) n ks = n + length (filter P ks)"
  by (induction ks arbitrary: n) simp_all

lemma keywordMatches_of_count:
  "keywordMatches_of tokens po = keyword_count tokens po"
  by (simp add: keywordMatches_of_def keyword_count_def Let_def foldl_count_filter)

lemma poCandidates_of_stages:
  "poCandidates_of options pos name =
     (if stage_a pos name \<noteq> [] then stage_a pos name
      else if stage_b pos name \<noteq> [] then stage_b pos name
      else stage_c options pos name)"
  by (simp add: poCandidates_of_def Let_def stage_a_def stage_b_def stage_c_def contains_ci_def
      keyword_tokens_def keyword_threshold_def keywordMatches_of_count foldl_push_filter)

lemma Math_min_zero: "Math_min (Fin 3) (Fin 0) = Fin 0"
  by (simp add: Math_min_def)

lemma ge_zero: "ge (Fin (real n)) (Fin 0)"
  by (simp add: ge_def)

lemma poMatch_some:
  assumes "pool \<noteq> []"
  shows "\<exists>m. poMatch_of options q p pool = Some m"
proof -
  have "0 < length pool" using assms by simp
  moreover have "first pool \<noteq> None" using assms by (cases pool) simp_all
  ultimately show ?thesis
    unfolding poMatch_of_def Let_def filter_nonempty_find first_filter
    by (auto split: option.splits)
qed

lemma parseFloat_0: "parseFloat ''0'' = Fin 0"
  by (simp add: parseFloat_def take_sign_def is_space_def is_digit_def digits_val_def
      digit_val_def exponent_part_def scale10_def)

lemma parseFloat_toString_or0_field: "parseFloat_toString_or0 v = field_or_zero v"
  by (cases v rule: parseFloat_toString_or0.cases) (simp_all add: field_or_zero_def parseFloat_0)

lemma guard_present_nonzero:
  "\<not> zero_text v \<Longrightarrow> (truthy v \<and> strict_ne_zero v) = present_nonzero v"
  by (cases v rule: truthy.cases) (auto simp: present_nonzero_def zero_text_def)

lemma present_nonzero_not_zero_text: "present_nonzero v \<Longrightarrow> \<not> zero_text v"
  by (cases v rule: truthy.cases) (auto simp: present_nonzero_def zero_text_def)

lemma tryFormats_no_match:
  "\<not> list_ex (\<lambda>(regex, format). regex_test regex t) fs \<Longrightarrow> tryFormats fs t = ([], None)"
  by (induction fs) auto

lemma tryMonthNames_no_match:
  "\<not> list_ex (\<lambda>regex. case month_regex_match regex t of
                        None \<Rightarrow> False
                      | Some (monthName, g2, g3) \<Rightarrow> getMonthIndex monthName \<noteq> - 1) rs
   \<Longrightarrow> tryMonthNames rs t = None"
  by (induction rs) (auto simp: Let_def split: option.splits)

lemma separator_not_digit: "\<not> is_digit CHR ''/''" "\<not> is_digit CHR ''-''"
  by (simp_all add: is_digit_def)

lemma parseDate_MM_DD_YYYY:
  "parseDate t ''MM/DD/YYYY'' =
     (let f = map Number_of (split_on CHR ''/'' t);
          month = destructured f 0; day = destructured f 1; year = destructured f 2
      in Some (newDate year (map_option (\<lambda>m. m - 1) month) day))"
  by (simp add: parseDate_def)

lemma parseDate_MM_DD_YYYY_hyphen:
  "parseDate t ''MM-DD-YYYY'' =
     (let f = map Number_of (split_on CHR ''-'' t);
          month = destructured f 0; day = destructured f 1; year = destructured f 2
      in Some (newDate year (map_option (\<lambda>m. m - 1) month) day))"
  by (simp add: parseDate_def)

lemma split_on_no_sep: "sep \<notin> set w \<Longrightarrow> split_on sep w = [w]"
  by (induction w) auto

lemma split_on_sep:
  "sep \<notin> set w \<Longrightarrow> split_on sep (w @ sep # rest) = w # split_on sep rest"
  by (induction w) auto

lemma Number_of_digits: "list_all is_digit w \<Longrightarrow> Number_of w = Some (parseInt w)"
  by (simp add: Number_of_def parseInt_def)


lemma tryFormats_skip:
  "\<not> regex_test regex s \<Longrightarrow> tryFormats ((regex, format) # rest) s = tryFormats rest s"
  by simp

lemma tryFormats_hit:
  "regex_test regex s \<Longrightarrow> parseDate s format = Some d
   \<Longrightarrow> tryFormats ((regex, format) # rest) s = ([format], Some d)"
  by simp

lemma regex_test_length: "regex_test regex s \<Longrightarrow> length s = length regex"
  by (simp add: regex_test_def list_all2_lengthD)

lemma regex_test_nth:
  "regex_test regex s \<Longrightarrow> i < length regex \<Longrightarrow> regex ! i = CHR ''d'' \<Longrightarrow> is_digit (s ! i)"
  by (auto simp: regex_test_def list_all2_conv_all_nth)

lemma regex_test_nth_lit:
  "regex_test regex s \<Longrightarrow> i < length regex \<Longrightarrow> regex ! i \<noteq> CHR ''d'' \<Longrightarrow> s ! i = regex ! i"
  by (auto simp: regex_test_def list_all2_conv_all_nth)

lemma regex_date_shape:
  assumes "regex_test [CHR ''d'', CHR ''d'', sep, CHR ''d'', CHR ''d'', sep,
                        CHR ''d'', CHR ''d'', CHR ''d'', CHR ''d''] t"
    and "sep \<noteq> CHR ''d''"
  shows "\<exists>m dd y. t = m @ sep # dd @ sep # y \<and> length m = 2 \<and> length dd = 2 \<and> length y = 4
           \<and> list_all is_digit m \<and> list_all is_digit dd \<and> list_all is_digit y"
proof -
  from assms have "\<exists>a b c d e f g h. t = [a, b] @ sep # [c, d] @ sep # [e, f, g, h]
      \<and> list_all is_digit [a, b] \<and> list_all is_digit [c, d] \<and> list_all is_digit [e, f, g, h]"
    by (auto simp: regex_test_def list_all2_Cons1)
  then show ?thesis
    by (metis length_Cons list.size(3) numeral_2_eq_2 numeral_Bit0 Suc_numeral add_2_eq_Suc' One_nat_def)
qed


lemma digits_without: "list_all is_digit w \<Longrightarrow> \<not> is_digit sep \<Longrightarrow> sep \<notin> set w"
  by (auto simp: list_all_iff)

lemma date_fields:
  assumes "regex_test [CHR ''d'', CHR ''d'', sep, CHR ''d'', CHR ''d'', sep,
                        CHR ''d'', CHR ''d'', CHR ''d'', CHR ''d''] t"
    and "sep \<noteq> CHR ''d''" and "\<not> is_digit sep"
  shows "map Number_of (split_on sep t) =
           [Some (parseInt (take 2 t)), Some (parseInt (take 2 (drop 3 t))),
            Some (parseInt (drop 6 t))]"
proof -
  from regex_date_shape [OF assms(1,2)]
  obtain m dd y where t: "t = m @ sep # dd @ sep # y"
    and len: "length m = 2" "length dd = 2" "length y = 4"
    and dg: "list_all is_digit m" "list_all is_digit dd" "list_all is_digit y"
    by blast
  have "split_on sep t = [m, dd, y]"
    unfolding t
    by (simp only: split_on_sep [OF digits_without [OF dg(1) assms(3)]]
        split_on_sep [OF digits_without [OF dg(2) assms(3)]]
        split_on_no_sep [OF digits_without [OF dg(3) assms(3)]])
  moreover have "take 2 t = m" "take 2 (drop 3 t) = dd" "drop 6 t = y"
    using len by (simp_all add: t)
  ultimately show ?thesis
    using dg by (simp add: Number_of_digits)
qed

lemma tryFormats_slash:
  assumes "regex_test ''dd/dd/dddd'' t"
  shows "tryFormats dateFormats t =
           ([''MM/DD/YYYY''],
            Some (newDate (Some (parseInt (drop 6 t))) (Some (parseInt (take 2 t) - 1))
                    (Some (parseInt (take 2 (drop 3 t))))))"
proof -
  have len: "length t = 10"
    using regex_test_length [OF assms] by simp
  have r1: "\<not> regex_test ''dddd-dd-dd dd:dd:dd'' t"
    using len by (auto dest: regex_test_length)
  have "t ! 2 = CHR ''/''"
    using regex_test_nth_lit [OF assms, of 2] by simp
  then have r2: "\<not> regex_test ''dddd-dd-dd'' t"
    using regex_test_nth [of "''dddd-dd-dd''" t 2] separator_not_digit by auto
  have pd: "parseDate t ''MM/DD/YYYY'' =
      Some (newDate (Some (parseInt (drop 6 t))) (Some (parseInt (take 2 t) - 1))
                    (Some (parseInt (take 2 (drop 3 t)))))"
    unfolding parseDate_MM_DD_YYYY
    using date_fields [of "CHR ''/''" t] assms separator_not_digit
    by (simp add: destructured_def)
  show ?thesis
    unfolding dateFormats_def
    by (simp only: tryFormats_skip [OF r1] tryFormats_skip [OF r2] tryFormats_hit [OF assms pd])
qed

lemma tryFormats_hyphen:
  assumes "regex_test ''dd-dd-dddd'' t"
  shows "tryFormats dateFormats t =
           ([''MM-DD-YYYY''],
            Some (newDate (Some (parseInt (drop 6 t))) (Some (parseInt (take 2 t) - 1))
                    (Some (parseInt (take 2 (drop 3 t))))))"
proof -
  have len: "length t = 10"
    using regex_test_length [OF assms] by simp
  have r1: "\<not> regex_test ''dddd-dd-dd dd:dd:dd'' t"
    using len by (auto dest: regex_test_length)
  have t2: "t ! 2 = CHR ''-''"
    using regex_test_nth_lit [OF assms, of 2] by simp
  then have r2: "\<not> regex_test ''dddd-dd-dd'' t"
    using regex_test_nth [of "''dddd-dd-dd''" t 2] separator_not_digit by auto
  have r3: "\<not> regex_test ''dd/dd/dddd'' t"
    using t2 regex_test_nth_lit [of "''dd/dd/dddd''" t 2] by auto
  have r4: "\<not> regex_test ''dd/dd/dd'' t"
    using len by (auto dest: regex_test_length)
  have pd: "parseDate t ''MM-DD-YYYY'' =
      Some (newDate (Some (parseInt (drop 6 t))) (Some (parseInt (take 2 t) - 1))
                    (Some (parseInt (take 2 (drop 3 t)))))"
    unfolding parseDate_MM_DD_YYYY_hyphen
    using date_fields [of "CHR ''-''" t] assms separator_not_digit
    by (simp add: destructured_def)
  show ?thesis
    unfolding dateFormats_def
    by (simp only: tryFormats_skip [OF r1] tryFormats_skip [OF r2] tryFormats_skip [OF r3]
        tryFormats_skip [OF r4] tryFormats_hit [OF assms pd])
qed


lemma split_on_nonempty: "split_on sep s \<noteq> []"
  by (induction s) (auto split: list.splits)

lemma parseDate_timestamp: "\<exists>d. parseDate t ''YYYY-MM-DD HH:mm:ss'' = Some d"
  using split_on_nonempty [of "CHR '' ''" t]
  by (simp add: parseDate_def Let_def split: list.splits)

lemma parseDate_other:
  "\<exists>d. parseDate t ''YYYY-MM-DD'' = Some d" "\<exists>d. parseDate t ''MM/DD/YYYY'' = Some d"
  "\<exists>d. parseDate t ''MM/DD/YY'' = Some d" "\<exists>d. parseDate t ''DD/MM/YYYY'' = Some d"
  "\<exists>d. parseDate t ''MM-DD-YYYY'' = Some d" "\<exists>d. parseDate t ''DD-MM-YYYY'' = Some d"
  by (simp_all add: parseDate_def Let_def)

lemma parseDate_known:
  "\<forall>(regex, format) \<in> set dateFormats. \<exists>d. parseDate t format = Some d"
  using parseDate_timestamp parseDate_other by (simp add: dateFormats_def)

lemma tryFormats_first:
  "\<forall>(regex, format) \<in> set fs. \<exists>d. parseDate t format = Some d
   \<Longrightarrow> fst (tryFormats fs t) =
       (case find (\<lambda>(regex, format). regex_test regex t) fs of
          None \<Rightarrow> []
        | Some (regex, format) \<Rightarrow> [format])"
  by (induction fs) auto

lemma tryFormats_calls:
  "fst (tryFormats dateFormats t) \<in>
     {[], [''YYYY-MM-DD HH:mm:ss''], [''YYYY-MM-DD''], [''MM/DD/YYYY''], [''MM/DD/YY''],
      [''MM-DD-YYYY'']}"
  unfolding tryFormats_first [OF parseDate_known]
  by (simp add: dateFormats_def)

lemma trim_shape_nonempty:
  assumes "length (trim s) = 10"
  shows "s \<noteq> [] \<and> s \<noteq> ''NULL''"
  using assms by (auto simp: trim_def is_space_def)


section \<open>Candidate selection\<close>

text \<open>
  C1, as amended. The candidates of a line item are chosen in stages, and the first stage
  that is not empty is the pool: (a) the records of the working set whose item code is not
  empty and contains the product name, case ignored; (b) those whose description is not
  empty and contains it; (c) those with at least
  \<open>min(minKeywordMatches, floor(tokenCount / 2))\<close> keyword tokens of the name in their
  description or item code. In particular a stage (a) that is not empty is the pool.
\<close>

theorem candidate_stages:
  "poCandidates_of options pos name =
     (if stage_a pos name \<noteq> [] then stage_a pos name
      else if stage_b pos name \<noteq> [] then stage_b pos name
      else stage_c options pos name)
   \<and> (stage_a pos name \<noteq> [] \<longrightarrow> poCandidates_of options pos name = stage_a pos name)"
  by (simp add: poCandidates_of_stages)

theorem candidate_stages_witness:
  "stage_a [coded_po ''WIDGET A-1'', widget_po 10] ''Widget A'' \<noteq> []
   \<and> poCandidates_of default_options [coded_po ''WIDGET A-1'', widget_po 10] ''Widget A''
       = [coded_po ''WIDGET A-1'']"
proof -
  have a: "stage_a [coded_po ''WIDGET A-1'', widget_po 10] ''Widget A''
             = [coded_po ''WIDGET A-1'']"
    by code_simp
  show ?thesis
    using candidate_stages [of default_options "[coded_po ''WIDGET A-1'', widget_po 10]"
        "''Widget A''"]
    by (simp add: a)
qed

text \<open>
  C1 as stated fails for an empty product name: a record with an empty item code contains
  the empty name, yet the code leaves it out of stage (a), and another record becomes the
  match.
\<close>

theorem candidate_stages_counterexample:
  "stage_a_as_claimed [coded_po [], coded_po ''A1''] [] = [coded_po [], coded_po ''A1'']
   \<and> poCandidates_of default_options [coded_po [], coded_po ''A1''] [] = [coded_po ''A1'']
   \<and> poMatch_of default_options (Fin 1) (Fin 1)
         (stage_a_as_claimed [coded_po [], coded_po ''A1''] []) = Some (coded_po [])
   \<and> poMatch_of default_options (Fin 1) (Fin 1)
         (poCandidates_of default_options [coded_po [], coded_po ''A1''] [])
       = Some (coded_po ''A1'')"
  by code_simp

section \<open>The match chosen\<close>

text \<open>
  C2. Of a pool that is not empty, the match is the first candidate with quantity and price
  both within tolerance; else the first with only the quantity within tolerance; else the
  first with only the price within tolerance; else the first candidate. So a pool that is
  not empty always gives a match.
\<close>

theorem poMatch_tie_break:
  "poMatch_of options q p pool =
     (let qok = (\<lambda>po. within_tolerance (parseFloat_toString (PurchaseQty po)) q
                        (opts_quantityTolerance options));
          pok = (\<lambda>po. within_tolerance (parseFloat_toString (PurchasePrice po)) p
                        (opts_priceTolerance options))
      in if pool = [] then None
         else
           (case find (\<lambda>po. qok po \<and> pok po) pool of
              Some m \<Rightarrow> Some m
            | None \<Rightarrow>
                (case find (\<lambda>po. qok po \<and> \<not> pok po) pool of
                   Some m \<Rightarrow> Some m
                 | None \<Rightarrow>
                     (case find (\<lambda>po. pok po \<and> \<not> qok po) pool of
                        Some m \<Rightarrow> Some m
                      | None \<Rightarrow> Some (hd pool)))))
   \<and> (pool \<noteq> [] \<longrightarrow> poMatch_of options q p pool \<noteq> None)"
proof -
  have eq: "poMatch_of options q p pool =
     (let qok = (\<lambda>po. within_tolerance (parseFloat_toString (PurchaseQty po)) q
                        (opts_quantityTolerance options));
          pok = (\<lambda>po. within_tolerance (parseFloat_toString (PurchasePrice po)) p
                        (opts_priceTolerance options))
      in if pool = [] then None
         else
           (case find (\<lambda>po. qok po \<and> pok po) pool of
              Some m \<Rightarrow> Some m
            | None \<Rightarrow>
                (case find (\<lambda>po. qok po \<and> \<not> pok po) pool of
                   Some m \<Rightarrow> Some m
                 | None \<Rightarrow>
                     (case find (\<lambda>po. pok po \<and> \<not> qok po) pool of
                        Some m \<Rightarrow> Some m
                      | None \<Rightarrow> Some (hd pool)))))"
    unfolding poMatch_of_def within_tolerance_def
    by (subst staged_first) (simp only: Let_def)
  moreover have "pool \<noteq> [] \<longrightarrow> poMatch_of options q p pool \<noteq> None"
    unfolding eq Let_def by (simp split: option.splits)
  ultimately show ?thesis by blast
qed

theorem poMatch_tie_break_witness:
  "[widget_po 8, widget_po 10] \<noteq> []
   \<and> poMatch_of default_options (Fin 10) (Fin 5) [widget_po 8, widget_po 10] \<noteq> None
   \<and> poMatch_of default_options (Fin 10) (Fin 5) [widget_po 8, widget_po 10]
       = Some (widget_po 10)"
  using poMatch_tie_break [of default_options "Fin 10" "Fin 5" "[widget_po 8, widget_po 10]"]
  by (simp add: within_tolerance_def widget_po_def default_options_def
      opts_quantityTolerance_def opts_priceTolerance_def)

section \<open>Classification\<close>

text \<open>
  C3. For a line item with a match, the quantity and price flags compare the item's values
  with the match's own quantity and price, by absolute difference strictly below the
  tolerance; the comparison date is the item's delivery date if present, else the invoice
  date, else empty; both dates go through \<^verbatim>\<open>standardizeDate\<close>; the date flag is true
  when \<^verbatim>\<open>requireDateMatch\<close> is false and \<^verbatim>\<open>datesEqual\<close> of the two dates
  otherwise; and the status is MATCH exactly when the three flags hold, DISCREPANCY
  otherwise.
\<close>

theorem classification:
  assumes "poMatch_of options (invoiceQty_of item) (invoicePrice_of item)
             (poCandidates_of options matchingPOs (productName item)) = Some m"
  shows "\<exists>inv po.
           itemRows nd options invoiceData matchingPOs item = [inv, po]
         \<and> qty_match inv = Some (within_tolerance (invoiceQty_of item)
               (parseFloat_toString (PurchaseQty m)) (opts_quantityTolerance options))
         \<and> price_match inv = Some (within_tolerance (invoicePrice_of item)
               (parseFloat_toString (PurchasePrice m)) (opts_priceTolerance options))
         \<and> Date inv = standardizeDate nd (Some (comparison_date invoiceData item))
         \<and> Date po = standardizeDate nd (Some (DateRequired m))
         \<and> date_match inv =
             Some (if opts_requireDateMatch options then datesEqual (Date inv) (Date po) else True)
         \<and> Status inv =
             (if qty_match inv = Some True \<and> price_match inv = Some True
                  \<and> date_match inv = Some True
              then MATCH else DISCREPANCY)
         \<and> Status po = Status inv
         \<and> qty_match po = qty_match inv \<and> price_match po = price_match inv
         \<and> date_match po = date_match inv"
  using assms
  by (simp add: itemRows_def Let_def within_tolerance_def itemDate_of_comparison_date)

theorem classification_witness:
  "poMatch_of default_options (invoiceQty_of widget_item) (invoicePrice_of widget_item)
     (poCandidates_of default_options [widget_po 8] (productName widget_item))
     = Some (widget_po 8)
   \<and> map Status (itemRows no_generic_parse default_options (invoice_of widget_item)
                    [widget_po 8] widget_item) = [DISCREPANCY, DISCREPANCY]
   \<and> map qty_match (itemRows no_generic_parse default_options (invoice_of widget_item)
                       [widget_po 8] widget_item) = [Some False, Some False]"
proof -
  have h: "poMatch_of default_options (invoiceQty_of widget_item) (invoicePrice_of widget_item)
     (poCandidates_of default_options [widget_po 8] (productName widget_item))
     = Some (widget_po 8)"
    by code_simp
  have q: "within_tolerance (invoiceQty_of widget_item)
             (parseFloat_toString (PurchaseQty (widget_po 8)))
             (opts_quantityTolerance default_options) = False"
    by (simp add: within_tolerance_def invoiceQty_of_def widget_item_def widget_po_def
        default_options_def opts_quantityTolerance_def)
  from classification [OF h, of no_generic_parse "invoice_of widget_item"]
  show ?thesis
    using h by (auto simp: q)
qed

section \<open>Emission\<close>

text \<open>
  C4, as amended. When the list of purchase orders is not empty, the result is the rows of
  the line items in their order. A line item with a match gives two rows: an INVOICE row
  with the item's quantity, unit price and normalized date and their product as total,
  then a PO row with the match's quantity, price and normalized date required, described
  by its item code, a hyphen between spaces, and its description with every line feed
  turned into a space; both have the same status and the same flags. A line item without
  a match gives one INVOICE row with status NO MATCH and no flag.
\<close>

theorem emission:
  assumes "poRecords \<noteq> []"
  shows "reconcileInvoiceData nd invoiceData poRecords options
           = concat (map (itemRows nd options invoiceData (matchingPOs_of invoiceData poRecords))
                       (lineItems invoiceData))
       \<and> (\<forall>item.
            case poMatch_of options (invoiceQty_of item) (invoicePrice_of item)
                   (poCandidates_of options (matchingPOs_of invoiceData poRecords)
                      (productName item)) of
              Some m \<Rightarrow>
                (\<exists>inv po.
                   itemRows nd options invoiceData (matchingPOs_of invoiceData poRecords) item
                     = [inv, po]
                 \<and> Source inv = INVOICE \<and> PO_number inv = poNumber invoiceData
                 \<and> Item_Description inv = productName item
                 \<and> Qty inv = invoiceQty_of item \<and> Unit_Price inv = invoicePrice_of item
                 \<and> Total_Price inv = mul (Qty inv) (Unit_Price inv)
                 \<and> Date inv = standardizeDate nd (Some (comparison_date invoiceData item))
                 \<and> Source po = PO \<and> PO_number po = PurchaseOrderID m
                 \<and> Item_Description po
                     = PurchaseSupplierItem m @ '' - ''
                         @ map (\<lambda>c. if c = CHR 0x0A then CHR '' '' else c)
                             (PurchaseSupplierDescription m)
                 \<and> Qty po = parseFloat_toString (PurchaseQty m)
                 \<and> Unit_Price po = parseFloat_toString (PurchasePrice m)
                 \<and> Total_Price po = mul (Qty po) (Unit_Price po)
                 \<and> Date po = standardizeDate nd (Some (DateRequired m))
                 \<and> Status inv \<noteq> NO_MATCH_status \<and> Status po = Status inv
                 \<and> qty_match inv \<noteq> None \<and> price_match inv \<noteq> None \<and> date_match inv \<noteq> None
                 \<and> qty_match po = qty_match inv \<and> price_match po = price_match inv
                 \<and> date_match po = date_match inv)
            | None \<Rightarrow>
                (\<exists>inv.
                   itemRows nd options invoiceData (matchingPOs_of invoiceData poRecords) item
                     = [inv]
                 \<and> Source inv = INVOICE \<and> PO_number inv = poNumber invoiceData
                 \<and> Item_Description inv = productName item
                 \<and> Qty inv = invoiceQty_of item \<and> Unit_Price inv = invoicePrice_of item
                 \<and> Total_Price inv = mul (Qty inv) (Unit_Price inv)
                 \<and> Date inv = standardizeDate nd (Some (comparison_date invoiceData item))
                 \<and> Status inv = NO_MATCH_status
                 \<and> qty_match inv = None \<and> price_match inv = None \<and> date_match inv = None))"
  apply (intro conjI allI)
  subgoal
    using assms by (simp add: reconcileInvoiceData_def Let_def foldl_append_concat)
  subgoal for item
    by (simp add: itemRows_def Let_def itemDate_of_comparison_date replace_newlines_def
        split: option.splits)
  done

theorem emission_witness:
  "[widget_po 10] \<noteq> []
   \<and> map Source (reconcileInvoiceData no_generic_parse (invoice_of widget_item) [widget_po 10]
                    default_options) = [INVOICE, PO]
   \<and> map Status (reconcileInvoiceData no_generic_parse (invoice_of gadget_item)
                    [coded_po ''A1''\<lparr>PurchaseOrderID := ''PO2''\<rparr>] default_options)
       = [NO_MATCH_status]"
proof -
  have h: "poMatch_of default_options (invoiceQty_of widget_item) (invoicePrice_of widget_item)
     (poCandidates_of default_options (matchingPOs_of (invoice_of widget_item) [widget_po 10])
        (productName widget_item))
     = Some (widget_po 10)"
    by code_simp
  have n: "poMatch_of default_options (invoiceQty_of gadget_item) (invoicePrice_of gadget_item)
     (poCandidates_of default_options
        (matchingPOs_of (invoice_of gadget_item) [coded_po ''A1''\<lparr>PurchaseOrderID := ''PO2''\<rparr>])
        (productName gadget_item))
     = None"
    by code_simp
  have a: "map Source (reconcileInvoiceData no_generic_parse (invoice_of widget_item)
                    [widget_po 10] default_options) = [INVOICE, PO]"
    using emission [of "[widget_po 10]" no_generic_parse "invoice_of widget_item" default_options]
      h
    by (auto simp: invoice_of_def dest!: spec [of _ widget_item])
  have b: "map Status (reconcileInvoiceData no_generic_parse (invoice_of gadget_item)
                    [coded_po ''A1''\<lparr>PurchaseOrderID := ''PO2''\<rparr>] default_options)
       = [NO_MATCH_status]"
    using emission [of "[coded_po ''A1''\<lparr>PurchaseOrderID := ''PO2''\<rparr>]" no_generic_parse
        "invoice_of gadget_item" default_options] n
    by (auto simp: invoice_of_def dest!: spec [of _ gadget_item])
  from a b show ?thesis by simp
qed

text \<open>
  C4 as stated fails for an empty list of purchase orders: the line item has no match, and
  no row is emitted for it.
\<close>

theorem emission_counterexample:
  "lineItems (invoice_of widget_item) = [widget_item]
   \<and> poMatch_of default_options (invoiceQty_of widget_item) (invoicePrice_of widget_item)
       (poCandidates_of default_options (matchingPOs_of (invoice_of widget_item) [])
          (productName widget_item)) = None
   \<and> reconcileInvoiceData no_generic_parse (invoice_of widget_item) [] default_options = []"
  by code_simp

section \<open>The summary\<close>

text \<open>
  C5. The summary counts INVOICE rows only: \<open>totalItems\<close> is their number, the three
  other counts add up to it, and PO rows change no count.
\<close>

theorem summary_counts:
  "totalItems (generateReconciliationSummary results)
     = length (filter (\<lambda>r. Source r = INVOICE) results)
   \<and> matches (generateReconciliationSummary results)
       + discrepancies (generateReconciliationSummary results)
       + noMatches (generateReconciliationSummary results)
     = totalItems (generateReconciliationSummary results)
   \<and> generateReconciliationSummary results
     = generateReconciliationSummary (filter (\<lambda>r. Source r = INVOICE) results)
   \<and> generateReconciliationSummary (filter (\<lambda>r. Source r = PO) results)
     = \<lparr>totalItems = 0, matches = 0, discrepancies = 0, noMatches = 0\<rparr>"
proof -
  have "filter (\<lambda>r. Source r = INVOICE) (filter (\<lambda>r. Source r = PO) results) = []"
    by (induction results) simp_all
  then show ?thesis
    using status_partition [of "filter (\<lambda>r. Source r = INVOICE) results"]
    by (simp add: generateReconciliationSummary_def Let_def del: filter_filter)
qed


section \<open>Quantity and unit price\<close>

text \<open>
  C8, as amended. The quantity of every line item is what \<^verbatim>\<open>parseFloat\<close> reads from
  its quantity field, 0 for an empty field. The unit price is the unit price field if that
  is present and not zero. When the unit price field is absent, empty, 0 or NaN, the unit
  price is the total price divided by the quantity, if the total price is present and not
  zero and the quantity is not 0; and it is the legacy price field, 0 when that is absent
  or empty, if the quantity is 0 or the total price is absent, empty, 0 or NaN. Nothing is
  said of a unit price, or of a total price next to a quantity other than 0, that is a text
  reading as zero.
\<close>

theorem quantity_and_price:
  "invoiceQty_of item = field_or_zero (Some (quantity item))
   \<and> (present_nonzero (unitPrice item) \<and> unitPrice item = Some u
        \<longrightarrow> invoicePrice_of item = parseFloat_toString u)
   \<and> (\<not> present_nonzero (unitPrice item) \<and> \<not> zero_text (unitPrice item)
        \<and> present_nonzero (totalPrice item) \<and> totalPrice item = Some t
        \<and> invoiceQty_of item \<noteq> Fin 0
        \<longrightarrow> invoicePrice_of item = divn (parseFloat_toString t) (invoiceQty_of item))
   \<and> (\<not> present_nonzero (unitPrice item) \<and> \<not> zero_text (unitPrice item)
        \<and> (invoiceQty_of item = Fin 0
             \<or> (\<not> present_nonzero (totalPrice item) \<and> \<not> zero_text (totalPrice item)))
        \<longrightarrow> invoicePrice_of item = field_or_zero (price item))"
proof -
  have q: "invoiceQty_of item = field_or_zero (Some (quantity item))"
    by (simp add: invoiceQty_of_def parseFloat_toString_or0_field)
  have first: "invoicePrice_of item = parseFloat_toString u"
    if "present_nonzero (unitPrice item)" and "unitPrice item = Some u"
  proof -
    have "(truthy (unitPrice item) \<and> strict_ne_zero (unitPrice item)) = True"
      using that(1) guard_present_nonzero [OF present_nonzero_not_zero_text] by blast
    then show ?thesis
      unfolding invoicePrice_of_def using that(2) by (simp only: if_True option.case)
  qed
  have no_unit: "(truthy (unitPrice item) \<and> strict_ne_zero (unitPrice item)) = False"
    if "\<not> present_nonzero (unitPrice item)" and "\<not> zero_text (unitPrice item)"
    using that guard_present_nonzero by blast
  have second: "invoicePrice_of item = divn (parseFloat_toString t) (invoiceQty_of item)"
    if "\<not> present_nonzero (unitPrice item)" and "\<not> zero_text (unitPrice item)"
      and "present_nonzero (totalPrice item)" and "totalPrice item = Some t"
      and "invoiceQty_of item \<noteq> Fin 0"
  proof -
    have "(truthy (totalPrice item) \<and> strict_ne_zero (totalPrice item)
            \<and> invoiceQty_of item \<noteq> Fin 0) = True"
      using that(3,5) guard_present_nonzero [OF present_nonzero_not_zero_text] by blast
    then show ?thesis
      unfolding invoicePrice_of_def no_unit [OF that(1,2)] using that(4)
      by (simp only: if_True if_False option.case)
  qed
  have third: "invoicePrice_of item = field_or_zero (price item)"
    if "\<not> present_nonzero (unitPrice item)" and "\<not> zero_text (unitPrice item)"
      and "invoiceQty_of item = Fin 0
           \<or> (\<not> present_nonzero (totalPrice item) \<and> \<not> zero_text (totalPrice item))"
  proof -
    have "(truthy (totalPrice item) \<and> strict_ne_zero (totalPrice item)
              \<and> invoiceQty_of item \<noteq> Fin 0) = False"
      using that(3) guard_present_nonzero [of "totalPrice item"] by blast
    then show ?thesis
      unfolding invoicePrice_of_def no_unit [OF that(1,2)]
      by (simp only: if_False option.case parseFloat_toString_or0_field)
  qed
  from q first second third show ?thesis
    by blast
qed

theorem quantity_and_price_witness:
  "invoiceQty_of (unparsable_item\<lparr>unitPrice := Some (StrV ''0'')\<rparr>) = NaN
   \<and> present_nonzero (unitPrice zero_total_item)
   \<and> invoicePrice_of zero_total_item = Fin 5
   \<and> \<not> present_nonzero (unitPrice total_only_item) \<and> \<not> zero_text (unitPrice total_only_item)
   \<and> present_nonzero (totalPrice total_only_item)
   \<and> invoiceQty_of total_only_item = Fin 10
   \<and> invoicePrice_of total_only_item = Fin 5
   \<and> \<not> present_nonzero (unitPrice legacy_item) \<and> \<not> zero_text (unitPrice legacy_item)
   \<and> \<not> present_nonzero (totalPrice legacy_item) \<and> \<not> zero_text (totalPrice legacy_item)
   \<and> invoicePrice_of legacy_item = Fin 2.5"
proof -
  have f: "field_or_zero (Some (quantity (unparsable_item\<lparr>unitPrice := Some (StrV ''0'')\<rparr>)))
             = NaN"
    "field_or_zero (Some (quantity total_only_item)) = Fin 10"
    "field_or_zero (price legacy_item) = Fin 2.5"
    by code_simp+
  have z: "present_nonzero (unitPrice zero_total_item)"
    "unitPrice zero_total_item = Some (NumV (Fin 5))"
    by (simp_all add: present_nonzero_def zero_total_item_def)
  have p: "\<not> present_nonzero (unitPrice total_only_item)"
    "\<not> zero_text (unitPrice total_only_item)"
    "present_nonzero (totalPrice total_only_item)"
    "totalPrice total_only_item = Some (NumV (Fin 50))"
    by (simp_all add: present_nonzero_def zero_text_def total_only_item_def)
  have l: "\<not> present_nonzero (unitPrice legacy_item)" "\<not> zero_text (unitPrice legacy_item)"
    "\<not> present_nonzero (totalPrice legacy_item)" "\<not> zero_text (totalPrice legacy_item)"
    by (simp_all add: present_nonzero_def zero_text_def legacy_item_def)
  have a: "invoiceQty_of (unparsable_item\<lparr>unitPrice := Some (StrV ''0'')\<rparr>) = NaN"
    using quantity_and_price [of "unparsable_item\<lparr>unitPrice := Some (StrV ''0'')\<rparr>"] f(1)
    by simp
  have b: "invoicePrice_of zero_total_item = Fin 5"
    using quantity_and_price [of zero_total_item "NumV (Fin 5)"] z by simp
  have c: "invoiceQty_of total_only_item = Fin 10 \<and> invoicePrice_of total_only_item = Fin 5"
    using quantity_and_price [of total_only_item _ "NumV (Fin 50)"] p f(2) by simp
  have d: "invoicePrice_of legacy_item = Fin 2.5"
    using quantity_and_price [of legacy_item] l f(3) by simp
  from a b c d z p l show ?thesis
    by simp
qed

text \<open>C8 as stated fails for a quantity that cannot be parsed: it is NaN, not 0.\<close>

theorem quantity_and_price_counterexample:
  "quantity unparsable_item = StrV ''abc'' \<and> invoiceQty_of unparsable_item = NaN
   \<and> invoiceQty_of unparsable_item \<noteq> Fin 0"
  by code_simp

text \<open>
  A unit price given as the text \<^verbatim>\<open>"0"\<close> passes the guard
  \<^verbatim>\<open>item.unitPrice && item.unitPrice !== 0\<close> and is the unit price, whatever the
  total price.
\<close>

lemma zero_text_unit_price:
  "invoicePrice_of (total_only_item\<lparr>unitPrice := Some (StrV ''0'')\<rparr>) = Fin 0"
  by code_simp

section \<open>An empty list of purchase orders\<close>

text \<open>C9. Without purchase orders the result is empty, whatever the invoice and the options.\<close>

theorem reconcile_empty: "reconcileInvoiceData nd invoiceData [] options = []"
  by (simp add: reconcileInvoiceData_def)

section \<open>Product names of at most one token\<close>

text \<open>
  C10. For a product name of at most one keyword token and the default
  \<^verbatim>\<open>minKeywordMatches\<close>, the threshold of the keyword stage is 0, so when stages (a)
  and (b) are empty every record of the working set is a candidate; and when the working
  set is not empty, no row of the line item has status NO MATCH.
\<close>

theorem single_token_always_matched:
  assumes "length (keyword_tokens (productName item)) \<le> 1"
    and "minKeywordMatches options = None"
  shows "keyword_threshold options (keyword_tokens (productName item)) = Fin 0
       \<and> (stage_a (matchingPOs_of invoiceData poRecords) (productName item) = []
            \<and> stage_b (matchingPOs_of invoiceData poRecords) (productName item) = []
          \<longrightarrow> poCandidates_of options (matchingPOs_of invoiceData poRecords) (productName item)
              = matchingPOs_of invoiceData poRecords)
       \<and> (matchingPOs_of invoiceData poRecords \<noteq> []
          \<longrightarrow> (\<forall>r \<in> set (itemRows nd options invoiceData
                            (matchingPOs_of invoiceData poRecords) item).
                 Status r \<noteq> NO_MATCH_status))"
proof -
  let ?mp = "matchingPOs_of invoiceData poRecords"
  let ?name = "productName item"
  have "length (keyword_tokens ?name) div 2 = 0"
    using assms(1) by simp
  then have thr: "keyword_threshold options (keyword_tokens ?name) = Fin 0"
    using assms(2) by (simp add: keyword_threshold_def opts_minKeywordMatches_def Math_min_zero)
  have c: "stage_c options ?mp ?name = ?mp"
    by (simp add: stage_c_def thr ge_zero)
  have pool: "stage_a ?mp ?name = [] \<and> stage_b ?mp ?name = []
      \<longrightarrow> poCandidates_of options ?mp ?name = ?mp"
    by (simp add: poCandidates_of_stages c)
  have ne: "?mp \<noteq> [] \<longrightarrow> poCandidates_of options ?mp ?name \<noteq> []"
    by (simp add: poCandidates_of_stages c)
  have "?mp \<noteq> [] \<longrightarrow> (\<forall>r \<in> set (itemRows nd options invoiceData ?mp item).
                 Status r \<noteq> NO_MATCH_status)"
  proof
    assume "?mp \<noteq> []"
    with ne have "poCandidates_of options ?mp ?name \<noteq> []" by simp
    then obtain m where "poMatch_of options (invoiceQty_of item) (invoicePrice_of item)
             (poCandidates_of options ?mp ?name) = Some m"
      using poMatch_some by blast
    then show "\<forall>r \<in> set (itemRows nd options invoiceData ?mp item). Status r \<noteq> NO_MATCH_status"
      by (simp add: itemRows_def Let_def)
  qed
  with thr pool show ?thesis by blast
qed

theorem single_token_always_matched_witness:
  "length (keyword_tokens (productName gadget_item)) \<le> 1
   \<and> minKeywordMatches default_options = None
   \<and> stage_a (matchingPOs_of (invoice_of gadget_item) [widget_po 10]) (productName gadget_item) = []
   \<and> stage_b (matchingPOs_of (invoice_of gadget_item) [widget_po 10]) (productName gadget_item) = []
   \<and> matchingPOs_of (invoice_of gadget_item) [widget_po 10] \<noteq> []
   \<and> poCandidates_of default_options (matchingPOs_of (invoice_of gadget_item) [widget_po 10])
         (productName gadget_item)
       = matchingPOs_of (invoice_of gadget_item) [widget_po 10]
   \<and> NO_MATCH_status \<notin> Status ` set (itemRows no_generic_parse default_options
         (invoice_of gadget_item) (matchingPOs_of (invoice_of gadget_item) [widget_po 10])
         gadget_item)"
proof -
  have t: "length (keyword_tokens (productName gadget_item)) \<le> 1"
    by code_simp
  have m: "minKeywordMatches default_options = None"
    by (simp add: default_options_def)
  have s: "stage_a (matchingPOs_of (invoice_of gadget_item) [widget_po 10])
             (productName gadget_item) = []"
    "stage_b (matchingPOs_of (invoice_of gadget_item) [widget_po 10])
             (productName gadget_item) = []"
    by code_simp+
  have ne: "matchingPOs_of (invoice_of gadget_item) [widget_po 10] \<noteq> []"
    by code_simp
  from single_token_always_matched [OF t m, of "invoice_of gadget_item" "[widget_po 10]"
      no_generic_parse]
  show ?thesis
    using t m s ne by auto
qed

section \<open>Date normalization\<close>

text \<open>
  C6. \<^verbatim>\<open>standardizeDate\<close> always returns a string. It returns the empty string for
  \<^verbatim>\<open>null\<close>, \<^verbatim>\<open>undefined\<close>, the empty string and \<^verbatim>\<open>"NULL"\<close>. For any
  other string on which no fixed pattern matches, the generic parsing gives an invalid date
  and no month-name pattern succeeds, it returns the trimmed string. And when the parsing
  throws, it returns the string as it came.
\<close>

theorem standardizeDate_total:
  "standardizeDate nd None = []
   \<and> standardizeDate nd (Some []) = []
   \<and> standardizeDate nd (Some ''NULL'') = []
   \<and> (s \<noteq> [] \<and> s \<noteq> ''NULL'' \<and> \<not> fixed_pattern_matches (trim s)
        \<and> nd (trim s) = Inr InvalidDate \<and> \<not> month_name_matches (trim s)
      \<longrightarrow> standardizeDate nd (Some s) = trim s)
   \<and> (s \<noteq> [] \<and> s \<noteq> ''NULL'' \<and> \<not> fixed_pattern_matches (trim s) \<and> nd (trim s) = Inl e
      \<longrightarrow> standardizeDate nd (Some s) = s)"
  by (auto simp: standardizeDate_def standardizeDate_try_def Let_def fixed_pattern_matches_def
      month_name_matches_def tryFormats_no_match tryMonthNames_no_match)

theorem standardizeDate_total_witness:
  "\<not> fixed_pattern_matches (trim ''  hello '')
   \<and> \<not> month_name_matches (trim ''  hello '')
   \<and> standardizeDate no_generic_parse (Some ''  hello '') = ''hello''
   \<and> standardizeDate throwing_parse (Some ''  hello '') = ''  hello ''"
proof -
  have t: "trim ''  hello '' = ''hello''"
    by code_simp
  have f: "\<not> fixed_pattern_matches ''hello''" "\<not> month_name_matches ''hello''"
    by code_simp+
  have a: "standardizeDate no_generic_parse (Some ''  hello '') = ''hello''"
    using standardizeDate_total [of no_generic_parse "''  hello ''"] f
    by (simp add: t no_generic_parse_def)
  have b: "standardizeDate throwing_parse (Some ''  hello '') = ''  hello ''"
    using standardizeDate_total [of throwing_parse "''  hello ''" "()"] f
    by (simp add: t throwing_parse_def)
  from a b f show ?thesis
    by (simp add: t)
qed

text \<open>
  C7. A trimmed input of the shape \<^verbatim>\<open>dd/dd/dddd\<close> is parsed under
  \<^verbatim>\<open>MM/DD/YYYY\<close>, its first field the month and its second the day, and one of the
  shape \<^verbatim>\<open>dd-dd-dddd\<close> under \<^verbatim>\<open>MM-DD-YYYY\<close>; \<^verbatim>\<open>parseDate\<close> is never
  called with \<^verbatim>\<open>DD/MM/YYYY\<close> or \<^verbatim>\<open>DD-MM-YYYY\<close>.
\<close>

theorem month_first:
  "(regex_test ''dd/dd/dddd'' (trim s)
      \<longrightarrow> fst (tryFormats dateFormats (trim s)) = [''MM/DD/YYYY'']
        \<and> standardizeDate nd (Some s)
            = formatDate (newDate (Some (parseInt (drop 6 (trim s))))
                            (Some (parseInt (take 2 (trim s)) - 1))
                            (Some (parseInt (take 2 (drop 3 (trim s)))))))
   \<and> (regex_test ''dd-dd-dddd'' (trim s)
      \<longrightarrow> fst (tryFormats dateFormats (trim s)) = [''MM-DD-YYYY'']
        \<and> standardizeDate nd (Some s)
            = formatDate (newDate (Some (parseInt (drop 6 (trim s))))
                            (Some (parseInt (take 2 (trim s)) - 1))
                            (Some (parseInt (take 2 (drop 3 (trim s)))))))
   \<and> ''DD/MM/YYYY'' \<notin> set (fst (tryFormats dateFormats t))
   \<and> ''DD-MM-YYYY'' \<notin> set (fst (tryFormats dateFormats t))"
proof -
  have std: "standardizeDate nd (Some s) = formatDate d"
    if "tryFormats dateFormats (trim s) = (calls, Some d)" and "length (trim s) = 10"
    for calls d
    using that trim_shape_nonempty [of s]
    by (simp add: standardizeDate_def standardizeDate_try_def Let_def)
  have slash: "fst (tryFormats dateFormats (trim s)) = [''MM/DD/YYYY'']
        \<and> standardizeDate nd (Some s)
            = formatDate (newDate (Some (parseInt (drop 6 (trim s))))
                            (Some (parseInt (take 2 (trim s)) - 1))
                            (Some (parseInt (take 2 (drop 3 (trim s))))))"
    if r: "regex_test ''dd/dd/dddd'' (trim s)"
    using tryFormats_slash [OF r] std regex_test_length [OF r] by simp
  have hyphen: "fst (tryFormats dateFormats (trim s)) = [''MM-DD-YYYY'']
        \<and> standardizeDate nd (Some s)
            = formatDate (newDate (Some (parseInt (drop 6 (trim s))))
                            (Some (parseInt (take 2 (trim s)) - 1))
                            (Some (parseInt (take 2 (drop 3 (trim s))))))"
    if r: "regex_test ''dd-dd-dddd'' (trim s)"
    using tryFormats_hyphen [OF r] std regex_test_length [OF r] by simp
  have "''DD/MM/YYYY'' \<notin> set (fst (tryFormats dateFormats t))"
    "''DD-MM-YYYY'' \<notin> set (fst (tryFormats dateFormats t))"
    using tryFormats_calls [of t] by auto
  with slash hyphen show ?thesis by blast
qed

theorem month_first_witness:
  "regex_test ''dd/dd/dddd'' (trim '' 13/01/2025'')
   \<and> standardizeDate no_generic_parse (Some '' 13/01/2025'') = ''01/01/2026''
   \<and> regex_test ''dd-dd-dddd'' (trim ''04-07-2025'')
   \<and> standardizeDate no_generic_parse (Some ''04-07-2025'') = ''04/07/2025''"
proof -
  have t: "trim '' 13/01/2025'' = ''13/01/2025''" "trim ''04-07-2025'' = ''04-07-2025''"
    by code_simp+
  have r: "regex_test ''dd/dd/dddd'' ''13/01/2025''" "regex_test ''dd-dd-dddd'' ''04-07-2025''"
    by code_simp+
  have d: "formatDate (newDate (Some (parseInt (drop 6 ''13/01/2025'')))
             (Some (parseInt (take 2 ''13/01/2025'') - 1))
             (Some (parseInt (take 2 (drop 3 ''13/01/2025''))))) = ''01/01/2026''"
    "formatDate (newDate (Some (parseInt (drop 6 ''04-07-2025'')))
             (Some (parseInt (take 2 ''04-07-2025'') - 1))
             (Some (parseInt (take 2 (drop 3 ''04-07-2025''))))) = ''04/07/2025''"
    by code_simp+
  have a: "standardizeDate no_generic_parse (Some '' 13/01/2025'') = ''01/01/2026''"
    using month_first [of "'' 13/01/2025''" no_generic_parse] r(1) d(1)
    unfolding t by simp
  have b: "standardizeDate no_generic_parse (Some ''04-07-2025'') = ''04/07/2025''"
    using month_first [of "''04-07-2025''" no_generic_parse] r(2) d(2)
    unfolding t by simp
  from a b r show ?thesis
    unfolding t by simp
qed

end
